theory Spec2Isabelle
  imports Complex_Main "HOL-Library.Multiset"
begin

section \<open>JavaScript numbers\<close>

text \<open>
  The program computes with JavaScript numbers: IEEE 754 binary64 values. A number is
  modelled as NaN, one of the two infinities, or a finite value kept as the exact
  rational it denotes. Every arithmetic result is rounded to the nearest binary64 value
  (ties to even) by \<open>to_double\<close>, and overflows to an infinity as IEEE 754 prescribes.
  The sign of zero is not modelled (no operation of the program observes it).
\<close>

datatype jsnum = NaN | PosInf | NegInf | Fin rat

function ipow :: "int \<Rightarrow> int \<Rightarrow> int" where
  \<comment> \<open>\<open>b^k\<close> for \<open>0 \<le> k\<close>, by recursion on the integer exponent\<close>
  "ipow b k = (if k \<le> 0 then 1 else b * ipow b (k - 1))"
  by pat_completeness auto
termination
  by (relation "measure (\<lambda>(b, k). nat k)") auto

declare ipow.simps [simp del]

definition scale :: "int \<Rightarrow> int \<Rightarrow> rat" where
  \<comment> \<open>\<open>b^e\<close> for any integer exponent\<close>
  "scale b e = (if 0 \<le> e then of_int (ipow b e) else 1 / of_int (ipow b (- e)))"

definition pow2 :: "int \<Rightarrow> rat" where
  "pow2 e = scale 2 e"

definition pow10 :: "int \<Rightarrow> rat" where
  "pow10 e = scale 10 e"

function bitlen :: "int \<Rightarrow> int" where
  "bitlen n = (if n \<le> 0 then 0 else 1 + bitlen (n div 2))"
  by pat_completeness auto
termination
  by (relation "measure nat") auto

declare bitlen.simps [simp del]

definition floor_log2 :: "rat \<Rightarrow> int" where
  \<comment> \<open>for \<open>0 < x\<close>: the \<open>k\<close> with \<open>2^k \<le> x < 2^(k+1)\<close>\<close>
  "floor_log2 x =
     (let (n, d) = quotient_of x; k = bitlen n - bitlen d
      in if pow2 k \<le> x then k else k - 1)"

definition round_half_even :: "rat \<Rightarrow> int" where
  "round_half_even x =
     (let f = \<lfloor>x\<rfloor>; r = x - of_int f
      in if r < 1 / 2 then f
         else if 1 / 2 < r then f + 1
         else if even f then f else f + 1)"

definition to_double :: "rat \<Rightarrow> jsnum" where
  \<comment> \<open>round to nearest, ties to even, on 53 significant bits; the least exponent of
      the unit in the last place is \<open>-1074\<close>, the overflow threshold \<open>2^1024\<close>\<close>
  "to_double x =
     (if x = 0 then Fin 0
      else let e = max (- 1074) (floor_log2 \<bar>x\<bar> - 52);
               m = round_half_even (x / pow2 e);
               v = of_int m * pow2 e
           in if pow2 1024 \<le> \<bar>v\<bar> then (if 0 < x then PosInf else NegInf) else Fin v)"

fun jsadd :: "jsnum \<Rightarrow> jsnum \<Rightarrow> jsnum" where
  "jsadd NaN _ = NaN"
| "jsadd _ NaN = NaN"
| "jsadd PosInf NegInf = NaN"
| "jsadd NegInf PosInf = NaN"
| "jsadd PosInf _ = PosInf"
| "jsadd _ PosInf = PosInf"
| "jsadd NegInf _ = NegInf"
| "jsadd _ NegInf = NegInf"
| "jsadd (Fin a) (Fin b) = to_double (a + b)"

fun jsneg :: "jsnum \<Rightarrow> jsnum" where
  "jsneg NaN = NaN"
| "jsneg PosInf = NegInf"
| "jsneg NegInf = PosInf"
| "jsneg (Fin a) = Fin (- a)"

definition jssub :: "jsnum \<Rightarrow> jsnum \<Rightarrow> jsnum" where
  "jssub a b = jsadd a (jsneg b)"

definition isNaN :: "jsnum \<Rightarrow> bool" where
  "isNaN x = (x = NaN)"

fun jsgt0 :: "jsnum \<Rightarrow> bool" where
  \<comment> \<open>\<open>x > 0\<close>\<close>
  "jsgt0 NaN = False"
| "jsgt0 PosInf = True"
| "jsgt0 NegInf = False"
| "jsgt0 (Fin a) = (0 < a)"

section \<open>Strings\<close>

text \<open>
  A string is a list of characters; a character stands for the code unit of the same
  number, so the model covers the strings over code units 0 to 255. The white space of
  \<open>String.prototype.trim\<close> and \<open>parseFloat\<close> in that range is TAB, LF, VT, FF, CR,
  SP and NBSP.
\<close>

definition isWhiteSpace :: "char \<Rightarrow> bool" where
  "isWhiteSpace c = (of_char c \<in> {9, 10, 11, 12, 13, 32, 160 :: nat})"

definition trimStart :: "string \<Rightarrow> string" where
  "trimStart s = dropWhile isWhiteSpace s"

definition trim :: "string \<Rightarrow> string" where
  "trim s = rev (dropWhile isWhiteSpace (rev (dropWhile isWhiteSpace s)))"

definition isDigit :: "char \<Rightarrow> bool" where
  "isDigit c = (48 \<le> (of_char c :: nat) \<and> (of_char c :: nat) \<le> 57)"

definition digitValue :: "char \<Rightarrow> int" where
  "digitValue c = int (of_char c) - 48"

definition digitsValue :: "string \<Rightarrow> int" where
  "digitsValue ds = foldl (\<lambda>acc c. 10 * acc + digitValue c) 0 ds"

subsection \<open>parseFloat\<close>

text \<open>
  \<open>parseFloat\<close> skips leading white space and reads the longest prefix that is a
  \<open>StrDecimalLiteral\<close>: an optional sign, then \<open>Infinity\<close>, or digits with an optional
  fraction, or a fraction, each with an optional exponent part. An exponent indicator
  that no digit follows is not part of the literal. Without such a prefix the result is
  NaN. The decimal value is rounded to the nearest binary64 value.
\<close>

definition parseExponent :: "string \<Rightarrow> int" where
  "parseExponent s =
     (case s of
        [] \<Rightarrow> 0
      | c # r \<Rightarrow>
          if c = CHR ''e'' \<or> c = CHR ''E'' then
            (case r of
               [] \<Rightarrow> 0
             | d # r' \<Rightarrow>
                 if d = CHR ''+'' then digitsValue (takeWhile isDigit r')
                 else if d = CHR ''-'' then - digitsValue (takeWhile isDigit r')
                 else digitsValue (takeWhile isDigit r))
          else 0)"

definition parseUnsigned :: "string \<Rightarrow> jsnum" where
  "parseUnsigned s =
     (if take 8 s = ''Infinity'' then PosInf
      else let ip = takeWhile isDigit s;
               r1 = dropWhile isDigit s;
               hasDot = (case r1 of [] \<Rightarrow> False | c # _ \<Rightarrow> c = CHR ''.'');
               fp = (if hasDot then takeWhile isDigit (tl r1) else []);
               r2 = (if hasDot then dropWhile isDigit (tl r1) else r1)
           in if ip = [] \<and> fp = [] then NaN
              else to_double (of_int (digitsValue (ip @ fp))
                     * pow10 (parseExponent r2 - int (length fp))))"

definition parseFloat :: "string \<Rightarrow> jsnum" where
  "parseFloat str =
     (case trimStart str of
        [] \<Rightarrow> NaN
      | c # r \<Rightarrow>
          if c = CHR ''-'' then jsneg (parseUnsigned r)
          else if c = CHR ''+'' then parseUnsigned r
          else parseUnsigned (c # r))"

section \<open>The application state (src/App.tsx)\<close>

record expense =
  id_exp :: int
  name :: string
  amount :: string

record app_state =
  grossIncome :: string
  filingStatus :: string
  location :: string
  expenses :: "expense list"
  netIncome :: "jsnum option"
  estimatedTax :: "jsnum option"
  taxDisclaimer :: string
  analysis :: string
  isLoading :: bool
  loadingStatus :: string
  error :: "string option"
  showResults :: bool

definition initialState :: "int \<Rightarrow> app_state" where
  \<comment> \<open>the \<open>useState\<close> initialisers; the argument is \<open>Date.now()\<close>\<close>
  "initialState now =
     \<lparr>grossIncome = [], filingStatus = ''Single'', location = [],
      expenses = [\<lparr>id_exp = now, name = ''Rent/Mortgage'', amount = []\<rparr>],
      netIncome = None, estimatedTax = None, taxDisclaimer = [], analysis = [],
      isLoading = False, loadingStatus = [], error = None, showResults = False\<rparr>"

subsection \<open>The expense handlers\<close>

definition handleAddExpense :: "int \<Rightarrow> expense list \<Rightarrow> expense list" where
  \<comment> \<open>the first argument is \<open>Date.now()\<close> at the call\<close>
  "handleAddExpense now prevExpenses =
     prevExpenses @ [\<lparr>id_exp = now, name = [], amount = []\<rparr>]"

definition handleRemoveExpense :: "int \<Rightarrow> expense list \<Rightarrow> expense list" where
  "handleRemoveExpense i prevExpenses = filter (\<lambda>e. id_exp e \<noteq> i) prevExpenses"

datatype field = NameField | AmountField

definition handleExpenseChange ::
  "int \<Rightarrow> field \<Rightarrow> string \<Rightarrow> expense list \<Rightarrow> expense list" where
  "handleExpenseChange i fld v prevExpenses =
     map (\<lambda>e. if id_exp e = i
               then (case fld of NameField \<Rightarrow> e\<lparr>name := v\<rparr> | AmountField \<Rightarrow> e\<lparr>amount := v\<rparr>)
               else e) prevExpenses"

subsection \<open>The derived totals\<close>

record totals =
  totalExpenses :: jsnum
  isFormValid :: bool

definition countsInTotal :: "expense \<Rightarrow> bool" where
  \<comment> \<open>the filter of the total\<close>
  "countsInTotal e =
     (trim (name e) \<noteq> [] \<and> trim (amount e) \<noteq> [] \<and> \<not> isNaN (parseFloat (amount e)))"

definition useTotals :: "string \<Rightarrow> expense list \<Rightarrow> string \<Rightarrow> totals" where
  \<comment> \<open>the \<open>useMemo\<close> over \<open>[grossIncome, expenses, location]\<close>\<close>
  "useTotals gross exps loc =
     (let numericGrossIncome = parseFloat gross;
          validExpenses = filter countsInTotal exps;
          total = foldl (\<lambda>sum e. jsadd sum (parseFloat (amount e))) (Fin 0) validExpenses;
          formValid = (\<not> isNaN numericGrossIncome \<and> jsgt0 numericGrossIncome \<and> trim loc \<noteq> [])
      in \<lparr>totalExpenses = total, isFormValid = formValid\<rparr>)"

definition totalsOf :: "app_state \<Rightarrow> totals" where
  "totalsOf s = useTotals (grossIncome s) (expenses s) (location s)"

definition remainingBalance :: "app_state \<Rightarrow> jsnum option" where
  "remainingBalance s =
     (case netIncome s of
        None \<Rightarrow> None
      | Some n \<Rightarrow> Some (jssub n (totalExpenses (totalsOf s))))"

section \<open>The estimation client (src/services/geminiService.ts)\<close>

text \<open>
  The remote model is a parameter: a function from the request to what awaiting
  \<open>generateContent\<close> gives. Each operation returns the request it sent together with
  its outcome, \<open>Inl\<close> for a thrown error. A reply to the tax request is the parsed JSON
  object, taken to carry the three required fields of the response schema; \<open>TaxThrows\<close>
  stands for a rejected call and for a text that \<open>JSON.parse\<close> refuses. The prompt of
  the analysis is kept as the values the template interpolates, one pair for each line
  of the expense list; its layout as text (\<open>toFixed(2)\<close>) is not modelled.
\<close>

datatype js_error = Error string

record taxResult =
  resNetIncome :: jsnum
  resTotalTax :: jsnum
  resDisclaimer :: string

record taxPrompt =
  askIncome :: jsnum
  askLocation :: string
  askFilingStatus :: string

datatype taxReply = TaxThrows | TaxJson jsnum jsnum string

definition getEstimatedNetIncome ::
  "(taxPrompt \<Rightarrow> taxReply) \<Rightarrow> jsnum \<Rightarrow> string \<Rightarrow> string
     \<Rightarrow> taxPrompt \<times> (js_error + taxResult)" where
  "getEstimatedNetIncome ai grossMonthlyIncome loc status =
     (let prompt = \<lparr>askIncome = grossMonthlyIncome, askLocation = loc,
                     askFilingStatus = status\<rparr>
      in (prompt,
          case ai prompt of
            TaxThrows \<Rightarrow> Inl (Error ''Failed to generate tax estimation from AI.'')
          | TaxJson estimatedNetIncome estimatedTotalTax disclaimer \<Rightarrow>
              Inr \<lparr>resNetIncome = estimatedNetIncome, resTotalTax = estimatedTotalTax,
                   resDisclaimer = disclaimer\<rparr>))"

record analysisPrompt =
  promptLocation :: string
  promptGrossIncome :: jsnum
  promptNetIncome :: jsnum
  promptExpenseList :: "(string \<times> jsnum) list"
  promptTotalExpenses :: jsnum
  promptRemainingBalance :: jsnum

datatype analysisReply = AnalysisThrows | AnalysisText string

definition getBudgetAnalysis ::
  "(analysisPrompt \<Rightarrow> analysisReply) \<Rightarrow> jsnum \<Rightarrow> jsnum \<Rightarrow> string \<Rightarrow> expense list
     \<Rightarrow> jsnum \<Rightarrow> jsnum \<Rightarrow> analysisPrompt \<times> (js_error + string)" where
  "getBudgetAnalysis ai gross net loc exps totalExp remaining =
     (let expenseList = map (\<lambda>e. (name e, parseFloat (amount e))) exps;
          prompt = \<lparr>promptLocation = loc, promptGrossIncome = gross,
                     promptNetIncome = net, promptExpenseList = expenseList,
                     promptTotalExpenses = totalExp, promptRemainingBalance = remaining\<rparr>
      in (prompt,
          case ai prompt of
            AnalysisThrows \<Rightarrow> Inl (Error ''Failed to generate budget analysis from AI.'')
          | AnalysisText text \<Rightarrow> Inr text))"

section \<open>The calculation (handleCalculate)\<close>

text \<open>
  While \<open>handleCalculate\<close> waits for a remote call the user can go on editing the form.
  These edits reach the state through the setters; the values \<open>handleCalculate\<close> reads
  (\<open>grossIncome\<close>, \<open>location\<close>, \<open>filingStatus\<close>, \<open>expenses\<close>, \<open>totalExpenses\<close>,
  \<open>isFormValid\<close>) are those of the render in which it was created. The button that
  starts a calculation is disabled while \<open>isLoading\<close> holds, so the edits are those of
  the form's other handlers.
\<close>

datatype event =
    SetGrossIncome string
  | SetFilingStatus string
  | SetLocation string
  | AddExpense int
  | RemoveExpense int
  | ExpenseChange int field string

fun apply_event :: "event \<Rightarrow> app_state \<Rightarrow> app_state" where
  "apply_event (SetGrossIncome v) s = s\<lparr>grossIncome := v\<rparr>"
| "apply_event (SetFilingStatus v) s = s\<lparr>filingStatus := v\<rparr>"
| "apply_event (SetLocation v) s = s\<lparr>location := v\<rparr>"
| "apply_event (AddExpense now) s = s\<lparr>expenses := handleAddExpense now (expenses s)\<rparr>"
| "apply_event (RemoveExpense i) s = s\<lparr>expenses := handleRemoveExpense i (expenses s)\<rparr>"
| "apply_event (ExpenseChange i fld v) s =
     s\<lparr>expenses := handleExpenseChange i fld v (expenses s)\<rparr>"

definition apply_events :: "event list \<Rightarrow> app_state \<Rightarrow> app_state" where
  "apply_events evs s = foldl (\<lambda>st ev. apply_event ev st) s evs"

datatype request = TaxRequest taxPrompt | AnalysisRequest analysisPrompt

definition validationMessage :: string where
  "validationMessage =
     ''Please fill in your gross income, location, and at least one valid expense.''"

definition failureMessage :: string where
  "failureMessage =
     ''An error occurred during analysis. Please check your inputs and try again.''"

definition taxStage ::
  "(taxPrompt \<Rightarrow> taxReply) \<Rightarrow> app_state \<Rightarrow> taxPrompt \<times> (js_error + taxResult)" where
  \<comment> \<open>the first remote call, on the values of the render \<open>s\<close>\<close>
  "taxStage taxAi s =
     getEstimatedNetIncome taxAi (parseFloat (grossIncome s)) (location s) (filingStatus s)"

definition analysisStage ::
  "(analysisPrompt \<Rightarrow> analysisReply) \<Rightarrow> app_state \<Rightarrow> taxResult
     \<Rightarrow> analysisPrompt \<times> (js_error + string)" where
  \<comment> \<open>the second remote call, on the values of the render \<open>s\<close> and the tax result\<close>
  "analysisStage analysisAi s taxRes =
     (let finalRemainingBalance = jssub (resNetIncome taxRes) (totalExpenses (totalsOf s));
          validExpenses =
            filter (\<lambda>e. trim (name e) \<noteq> [] \<and> trim (amount e) \<noteq> []) (expenses s)
      in getBudgetAnalysis analysisAi (parseFloat (grossIncome s)) (resNetIncome taxRes)
           (location s) validExpenses (totalExpenses (totalsOf s)) finalRemainingBalance)"

definition handleCalculate ::
  "(taxPrompt \<Rightarrow> taxReply) \<Rightarrow> (analysisPrompt \<Rightarrow> analysisReply)
     \<Rightarrow> event list \<Rightarrow> event list \<Rightarrow> app_state \<Rightarrow> app_state \<times> request list" where
  \<comment> \<open>\<open>s\<close> is the state of the render that created the handler; \<open>evs1\<close> are the edits
      made during the tax call, \<open>evs2\<close> those made during the analysis call. The result
      is the state when the handler has finished, and the requests it sent.\<close>
  "handleCalculate taxAi analysisAi evs1 evs2 s =
     (if \<not> isFormValid (totalsOf s) then (s\<lparr>error := Some validationMessage\<rparr>, [])
      else
        let s1 = s\<lparr>error := None, isLoading := True, showResults := True, analysis := [],
                  netIncome := None, estimatedTax := None,
                  loadingStatus := ''Estimating your taxes...''\<rparr>;
            (taxReq, taxOutcome) = taxStage taxAi s;
            s2 = apply_events evs1 s1
        in case taxOutcome of
             Inl err \<Rightarrow>
               (s2\<lparr>error := Some failureMessage, showResults := False,
                   isLoading := False, loadingStatus := []\<rparr>,
                [TaxRequest taxReq])
           | Inr taxRes \<Rightarrow>
               let s3 = s2\<lparr>netIncome := Some (resNetIncome taxRes),
                          estimatedTax := Some (resTotalTax taxRes),
                          taxDisclaimer := resDisclaimer taxRes,
                          loadingStatus := ''Analyzing your budget...''\<rparr>;
                   (analysisReq, analysisOutcome) = analysisStage analysisAi s taxRes;
                   s4 = apply_events evs2 s3
               in case analysisOutcome of
                    Inl err \<Rightarrow>
                      (s4\<lparr>error := Some failureMessage, showResults := False,
                          isLoading := False, loadingStatus := []\<rparr>,
                       [TaxRequest taxReq, AnalysisRequest analysisReq])
                  | Inr analysisResult \<Rightarrow>
                      (s4\<lparr>analysis := analysisResult,
                          isLoading := False, loadingStatus := []\<rparr>,
                       [TaxRequest taxReq, AnalysisRequest analysisReq]))"

section \<open>Example inputs\<close>

definition exampleExpenses :: "expense list" where
  "exampleExpenses =
     [\<lparr>id_exp = 1, name = ''Rent'', amount = ''1500''\<rparr>,
      \<lparr>id_exp = 2, name = [], amount = ''200''\<rparr>]"

definition exampleState :: app_state where
  "exampleState =
     (initialState 1)\<lparr>grossIncome := ''5000'', location := ''Austin'',
                       expenses := exampleExpenses\<rparr>"

definition taxOk :: "taxPrompt \<Rightarrow> taxReply" where
  "taxOk p = TaxJson (Fin 4000) (Fin 1000) ''Estimate only.''"

definition taxFails :: "taxPrompt \<Rightarrow> taxReply" where
  "taxFails p = TaxThrows"

definition analysisOk :: "analysisPrompt \<Rightarrow> analysisReply" where
  "analysisOk p = AnalysisText ''Looks good.''"

definition analysisFails :: "analysisPrompt \<Rightarrow> analysisReply" where
  "analysisFails p = AnalysisThrows"

definition analysisEmpty :: "analysisPrompt \<Rightarrow> analysisReply" where
  "analysisEmpty p = AnalysisText []"

definition afterSuccess :: app_state where
  \<comment> \<open>the state a successful calculation on the example leaves\<close>
  "afterSuccess = fst (handleCalculate taxOk analysisOk [] [] exampleState)"

definition invalidAfterSuccess :: app_state where
  \<comment> \<open>the income field is emptied after that calculation\<close>
  "invalidAfterSuccess = apply_event (SetGrossIncome []) afterSuccess"

definition exampleTaxResult :: taxResult where
  "exampleTaxResult =
     \<lparr>resNetIncome = Fin 4000, resTotalTax = Fin 1000, resDisclaimer = ''Estimate only.''\<rparr>"

definition editDuringTax :: "event list" where
  \<comment> \<open>the rent is raised while the tax call is pending\<close>
  "editDuringTax = [ExpenseChange 1 AmountField ''1700'']"

definition unparseableExpenses :: "expense list" where
  "unparseableExpenses =
     [\<lparr>id_exp = 1, name = ''Rent'', amount = ''1500''\<rparr>,
      \<lparr>id_exp = 2, name = ''Misc'', amount = ''abc''\<rparr>]"

definition unparseableState :: app_state where
  "unparseableState = exampleState\<lparr>expenses := unparseableExpenses\<rparr>"

definition infiniteExpenses :: "expense list" where
  "infiniteExpenses = [\<lparr>id_exp = 1, name = ''Rent'', amount = ''Infinity''\<rparr>]"

definition decimalExpenses :: "expense list" where
  "decimalExpenses =
     [\<lparr>id_exp = 1, name = ''Rent'', amount = ''1500''\<rparr>,
      \<lparr>id_exp = 2, name = ''Food'', amount = ''200.5''\<rparr>,
      \<lparr>id_exp = 3, name = ''Bus'', amount = ''0.25''\<rparr>]"

definition wholeExpenses :: "expense list" where
  "wholeExpenses =
     [\<lparr>id_exp = 1, name = ''Rent'', amount = ''1500''\<rparr>,
      \<lparr>id_exp = 2, name = ''Food'', amount = ''200''\<rparr>,
      \<lparr>id_exp = 3, name = ''Bus'', amount = ''75''\<rparr>]"

definition centsAscending :: "expense list" where
  "centsAscending =
     [\<lparr>id_exp = 1, name = ''a'', amount = ''0.1''\<rparr>,
      \<lparr>id_exp = 2, name = ''b'', amount = ''0.2''\<rparr>,
      \<lparr>id_exp = 3, name = ''c'', amount = ''0.3''\<rparr>]"

section \<open>The specification's wording\<close>

definition spec_computeTotal :: "expense list \<Rightarrow> jsnum" where
  \<comment> \<open>the specification's \<open>computeTotal()\<close>: the sum of \<open>amount\<close> over the entries whose
      name is non-empty, whose amount is non-empty and whose amount parses as a finite
      number\<close>
  "spec_computeTotal exps =
     foldl (\<lambda>sum e. jsadd sum (parseFloat (amount e))) (Fin 0)
       (filter (\<lambda>e. name e \<noteq> [] \<and> amount e \<noteq> []
                  \<and> (case parseFloat (amount e) of Fin q \<Rightarrow> True | _ \<Rightarrow> False)) exps)"

definition spec_isValid :: "string \<Rightarrow> string \<Rightarrow> bool" where
  \<comment> \<open>the specification's \<open>isValid\<close>: \<open>grossIncome\<close> parses to a finite number greater
      than 0 and the trimmed location is non-empty\<close>
  "spec_isValid gross loc =
     ((case parseFloat gross of Fin q \<Rightarrow> 0 < q | _ \<Rightarrow> False) \<and> trim loc \<noteq> [])"

definition amountOf :: "expense \<Rightarrow> rat" where
  \<comment> \<open>the finite value an amount parses to, 0 when there is none\<close>
  "amountOf e = (case parseFloat (amount e) of Fin q \<Rightarrow> q | _ \<Rightarrow> 0)"

definition wholeAmount :: "expense \<Rightarrow> bool" where
  \<comment> \<open>the amount parses to a whole number\<close>
  "wholeAmount e =
     (case parseFloat (amount e) of Fin q \<Rightarrow> of_int \<lfloor>q\<rfloor> = q | _ \<Rightarrow> False)"

fun addedExactly :: "rat \<Rightarrow> expense list \<Rightarrow> bool" where
  \<comment> \<open>starting from \<open>acc\<close>, every amount is finite and every addition of the
      left-to-right sum gives the exact sum: nothing is rounded\<close>
  "addedExactly acc [] = True"
| "addedExactly acc (e # es) =
     (case parseFloat (amount e) of
        Fin a \<Rightarrow> to_double (acc + a) = Fin (acc + a) \<and> addedExactly (acc + a) es
      | _ \<Rightarrow> False)"

definition summedExactly :: "expense list \<Rightarrow> bool" where
  \<comment> \<open>the total of the collection, taken in its order, is computed without rounding\<close>
  "summedExactly exps = addedExactly 0 (filter countsInTotal exps)"

section \<open>Rounding is exact on the integers below \<open>2^53\<close>\<close>

lemma ipow_eq: "ipow b k = b ^ nat k"
proof (induction b k rule: ipow.induct)
  case (1 b k)
  show ?case
  proof (cases "k \<le> 0")
    case True
    then show ?thesis by (subst ipow.simps) simp
  next
    case False
    then have "nat k = Suc (nat (k - 1))" by simp
    with False 1 show ?thesis by (subst ipow.simps) simp
  qed
qed

lemma bitlen_le: "n < 2 ^ m \<Longrightarrow> bitlen n \<le> int m"
proof (induction m arbitrary: n)
  case 0
  then show ?case by (subst bitlen.simps) simp
next
  case (Suc m)
  show ?case
  proof (cases "n \<le> 0")
    case True
    then show ?thesis by (subst bitlen.simps) simp
  next
    case False
    from Suc.prems have "n div 2 < 2 ^ m" by simp
    then have "bitlen (n div 2) \<le> int m" by (rule Suc.IH)
    with False show ?thesis by (subst bitlen.simps) simp
  qed
qed

lemma bitlen_1: "bitlen 1 = 1"
  by (subst bitlen.simps, subst bitlen.simps) simp

lemma floor_log2_int_le:
  assumes "0 < z" "z < 2 ^ 53"
  shows "floor_log2 (of_int z) \<le> 52"
proof -
  have "bitlen z \<le> 53" using bitlen_le [OF assms(2)] by simp
  then show ?thesis
    by (simp add: floor_log2_def bitlen_1 Let_def)
qed

lemma round_half_even_int: "round_half_even (of_int w) = w"
  by (simp add: round_half_even_def Let_def)

lemma pow2_nonpos: "e \<le> 0 \<Longrightarrow> pow2 e = 1 / of_int (2 ^ nat (- e))"
  by (cases "e = 0") (simp_all add: pow2_def scale_def ipow_eq)

lemma pow2_1024: "pow2 1024 = 2 ^ 1024"
  by (simp add: pow2_def scale_def ipow_eq)

lemma to_double_int:
  assumes "\<bar>z\<bar> < 2 ^ 53"
  shows "to_double (of_int z) = Fin (of_int z)"
proof (cases "z = 0")
  case True
  then show ?thesis by (simp add: to_double_def)
next
  case False
  define e where "e = max (- 1074) (floor_log2 \<bar>of_int z\<bar> - 52)"
  define j where "j = nat (- e)"
  have "floor_log2 (of_int \<bar>z\<bar>) \<le> 52"
    using False assms by (intro floor_log2_int_le) auto
  then have e0: "e \<le> 0" by (simp add: e_def)
  have p: "pow2 e = 1 / of_int (2 ^ j)"
    using pow2_nonpos [OF e0] by (simp add: j_def)
  have q: "of_int z / pow2 e = (of_int (z * 2 ^ j) :: rat)"
    by (simp add: p)
  have m: "round_half_even (of_int z / pow2 e) = z * 2 ^ j"
    unfolding q by (rule round_half_even_int)
  have v: "of_int (z * 2 ^ j) * pow2 e = (of_int z :: rat)"
    by (simp add: p)
  have "(of_int \<bar>z\<bar> :: rat) < of_int (2 ^ 53)"
    using assms by (simp only: of_int_less_iff)
  also have "\<dots> \<le> 2 ^ 1024"
    by simp
  finally have small: "\<not> pow2 1024 \<le> \<bar>of_int z :: rat\<bar>"
    by (simp add: pow2_1024)
  show ?thesis
    unfolding to_double_def Let_def e_def [symmetric] m v
    using False small by simp
qed

lemma wholeAmount_parse:
  "wholeAmount e \<Longrightarrow>
     parseFloat (amount e) = Fin (of_int \<lfloor>amountOf e\<rfloor>) \<and> of_int \<lfloor>amountOf e\<rfloor> = amountOf e"
  by (auto simp add: wholeAmount_def amountOf_def split: jsnum.splits)

lemma addedExactly_whole:
  assumes "\<forall>e \<in> set es. wholeAmount e"
    and "\<bar>rat_of_int acc\<bar> + (\<Sum>e\<leftarrow>es. \<bar>amountOf e\<bar>) < 2 ^ 53"
  shows "addedExactly (of_int acc) es"
  using assms
proof (induction es arbitrary: acc)
  case Nil
  then show ?case by simp
next
  case (Cons e es)
  define z where "z = \<lfloor>amountOf e\<rfloor>"
  have pe: "parseFloat (amount e) = Fin (of_int z)" and ze: "of_int z = amountOf e"
    using Cons.prems(1) wholeAmount_parse [of e] by (simp_all add: z_def)
  have nn: "0 \<le> (\<Sum>x\<leftarrow>es. \<bar>amountOf x\<bar>)"
    by (rule sum_list_nonneg) auto
  have "\<bar>rat_of_int (acc + z)\<bar> \<le> \<bar>rat_of_int acc\<bar> + \<bar>amountOf e\<bar>"
    by (simp add: ze)
  with Cons.prems(2) nn have b1: "\<bar>rat_of_int (acc + z)\<bar> < 2 ^ 53"
    and b2: "\<bar>rat_of_int (acc + z)\<bar> + (\<Sum>x\<leftarrow>es. \<bar>amountOf x\<bar>) < 2 ^ 53"
    by simp_all
  have "rat_of_int \<bar>acc + z\<bar> < rat_of_int (2 ^ 53)" using b1 by simp
  then have "\<bar>acc + z\<bar> < 2 ^ 53"
    by (simp only: of_int_less_iff)
  then have "to_double (of_int (acc + z)) = Fin (of_int (acc + z))"
    by (rule to_double_int)
  then have step: "to_double (of_int acc + of_int z) = Fin (of_int acc + of_int z)"
    by simp
  have "addedExactly (of_int (acc + z)) es"
    using Cons.prems(1) b2 by (intro Cons.IH) auto
  then have "addedExactly (of_int acc + of_int z) es"
    by simp
  with step show ?case
    by (simp add: pe)
qed

lemma foldl_exact:
  "addedExactly acc es \<Longrightarrow>
     foldl (\<lambda>sum e. jsadd sum (parseFloat (amount e))) (Fin acc) es =
       Fin (acc + (\<Sum>e\<leftarrow>es. amountOf e))"
proof (induction es arbitrary: acc)
  case Nil
  then show ?case by simp
next
  case (Cons e es)
  from Cons.prems obtain a where pe: "parseFloat (amount e) = Fin a"
    and ex: "to_double (acc + a) = Fin (acc + a)" and rest: "addedExactly (acc + a) es"
    by (auto split: jsnum.splits)
  have "foldl (\<lambda>sum e. jsadd sum (parseFloat (amount e))) (Fin (acc + a)) es =
          Fin (acc + a + (\<Sum>e\<leftarrow>es. amountOf e))"
    using rest by (rule Cons.IH)
  then show ?case
    by (simp add: pe ex amountOf_def add.assoc)
qed

lemma sum_list_mset_cong:
  fixes f :: "'a \<Rightarrow> rat"
  assumes "mset ys = mset xs"
  shows "sum_list (map f ys) = sum_list (map f xs)"
proof -
  have "sum_mset (mset (map f ys)) = sum_mset (mset (map f xs))"
    using assms by simp
  then show ?thesis by (simp only: sum_mset_sum_list)
qed

section \<open>The derived totals, unfolded\<close>

lemma totalExpenses_useTotals:
  "totalExpenses (useTotals gross exps loc) =
     foldl (\<lambda>sum e. jsadd sum (parseFloat (amount e))) (Fin 0) (filter countsInTotal exps)"
  by (simp add: useTotals_def Let_def)

lemma isFormValid_useTotals:
  "isFormValid (useTotals gross exps loc) =
     (\<not> isNaN (parseFloat gross) \<and> jsgt0 (parseFloat gross) \<and> trim loc \<noteq> [])"
  by (simp add: useTotals_def Let_def)

lemma total_skip:
  "\<not> countsInTotal e \<Longrightarrow>
     totalExpenses (useTotals gross (xs @ e # ys) loc) =
       totalExpenses (useTotals gross (xs @ ys) loc)"
  by (simp add: totalExpenses_useTotals)

lemma total_exact:
  "summedExactly exps \<Longrightarrow>
     totalExpenses (useTotals gross exps loc) =
       Fin (\<Sum>e\<leftarrow>filter countsInTotal exps. amountOf e)"
  using foldl_exact [of 0 "filter countsInTotal exps"]
  by (simp add: summedExactly_def totalExpenses_useTotals)

lemma summedExactly_whole:
  assumes "\<forall>e \<in> set exps. countsInTotal e \<longrightarrow> wholeAmount e"
    and "(\<Sum>e\<leftarrow>filter countsInTotal exps. \<bar>amountOf e\<bar>) < 2 ^ 53"
  shows "summedExactly exps"
proof -
  have "addedExactly (of_int 0) (filter countsInTotal exps)"
    using assms by (intro addedExactly_whole) simp_all
  then show ?thesis by (simp add: summedExactly_def)
qed

lemma total_exact_perm:
  assumes "mset ys = mset xs" and "summedExactly xs" and "summedExactly ys"
  shows "totalExpenses (useTotals gross ys loc) = totalExpenses (useTotals gross xs loc)"
proof -
  have "mset (filter countsInTotal ys) = mset (filter countsInTotal xs)"
    using assms(1) by simp
  then have "(\<Sum>e\<leftarrow>filter countsInTotal ys. amountOf e)
               = (\<Sum>e\<leftarrow>filter countsInTotal xs. amountOf e)"
    by (rule sum_list_mset_cong)
  then show ?thesis
    using total_exact [OF assms(2), of gross loc] total_exact [OF assms(3), of gross loc]
    by simp
qed

section \<open>Edits leave the results alone\<close>

lemma apply_event_results:
  "netIncome (apply_event ev s) = netIncome s"
  "estimatedTax (apply_event ev s) = estimatedTax s"
  "taxDisclaimer (apply_event ev s) = taxDisclaimer s"
  "analysis (apply_event ev s) = analysis s"
  "error (apply_event ev s) = error s"
  "showResults (apply_event ev s) = showResults s"
  by (cases ev; simp)+

lemma apply_events_results:
  "netIncome (apply_events evs s) = netIncome s"
  "estimatedTax (apply_events evs s) = estimatedTax s"
  "taxDisclaimer (apply_events evs s) = taxDisclaimer s"
  "analysis (apply_events evs s) = analysis s"
  "error (apply_events evs s) = error s"
  "showResults (apply_events evs s) = showResults s"
  unfolding apply_events_def
  by (induction evs arbitrary: s; simp add: apply_event_results)+

section \<open>Facts about the example inputs\<close>

lemma parse_5000: "parseFloat ''5000'' = Fin 5000"
  by code_simp

lemma parse_1500: "parseFloat ''1500'' = Fin 1500"
  by code_simp

lemma parse_1700: "parseFloat ''1700'' = Fin 1700"
  by code_simp

lemma parse_200: "parseFloat ''200'' = Fin 200"
  by code_simp

lemma parse_abc: "parseFloat ''abc'' = NaN"
  by code_simp

lemma parse_Infinity: "parseFloat ''Infinity'' = PosInf"
  by code_simp

lemma parse_tenth: "parseFloat ''0.1'' = Fin (3602879701896397 / 36028797018963968)"
  by code_simp

lemma parse_fifth: "parseFloat ''0.2'' = Fin (3602879701896397 / 18014398509481984)"
  by code_simp

lemma parse_three_tenths: "parseFloat ''0.3'' = Fin (5404319552844595 / 18014398509481984)"
  by code_simp

lemma sum_ascending:
  "jsadd (jsadd (jsadd (Fin 0) (Fin (3602879701896397 / 36028797018963968)))
      (Fin (3602879701896397 / 18014398509481984)))
      (Fin (5404319552844595 / 18014398509481984))
   = Fin (1351079888211149 / 2251799813685248)"
  by code_simp

lemma sum_descending:
  "jsadd (jsadd (jsadd (Fin 0) (Fin (5404319552844595 / 18014398509481984)))
      (Fin (3602879701896397 / 18014398509481984)))
      (Fin (3602879701896397 / 36028797018963968))
   = Fin (5404319552844595 / 9007199254740992)"
  by code_simp

lemma double_1500: "to_double 1500 = Fin 1500"
  using to_double_int [of 1500] by simp

lemma double_1700: "to_double 1700 = Fin 1700"
  using to_double_int [of 1700] by simp

lemma double_2500: "to_double 2500 = Fin 2500"
  using to_double_int [of 2500] by simp

lemma double_2300: "to_double 2300 = Fin 2300"
  using to_double_int [of 2300] by simp

lemma trims:
  "trim ''Rent'' = ''Rent''" "trim ''1500'' = ''1500''" "trim ''1700'' = ''1700''"
  "trim ''200'' = ''200''" "trim [] = []" "trim ''Austin'' = ''Austin''"
  "trim ''Misc'' = ''Misc''" "trim ''abc'' = ''abc''" "trim ''Infinity'' = ''Infinity''"
  "trim ''a'' = ''a''" "trim ''b'' = ''b''" "trim ''c'' = ''c''"
  "trim ''0.1'' = ''0.1''" "trim ''0.2'' = ''0.2''" "trim ''0.3'' = ''0.3''"
  by (simp_all add: trim_def isWhiteSpace_def)

lemma parse_200_5: "parseFloat ''200.5'' = Fin (401 / 2)"
  by code_simp

lemma parse_0_25: "parseFloat ''0.25'' = Fin (1 / 4)"
  by code_simp

lemma parse_75: "parseFloat ''75'' = Fin 75"
  by code_simp

lemma double_quarter: "to_double (1 / 4) = Fin (1 / 4)"
  by code_simp

lemma double_3401_2: "to_double (3401 / 2) = Fin (3401 / 2)"
  by code_simp

lemma double_803_4: "to_double (803 / 4) = Fin (803 / 4)"
  by code_simp

lemma double_6803_4: "to_double (6803 / 4) = Fin (6803 / 4)"
  by code_simp

lemma trims_more:
  "trim ''Food'' = ''Food''" "trim ''Bus'' = ''Bus''" "trim ''200.5'' = ''200.5''"
  "trim ''0.25'' = ''0.25''" "trim ''75'' = ''75''"
  by (simp_all add: trim_def isWhiteSpace_def)

lemmas example_evals = parse_5000 parse_1500 parse_1700 parse_200 parse_abc parse_Infinity
  double_1500 double_1700 double_2500 double_2300 trims

lemmas decimal_evals = example_evals trims_more parse_200_5 parse_0_25 parse_75
  double_quarter double_3401_2 double_803_4 double_6803_4

lemma decimal_counted: "filter countsInTotal decimalExpenses = decimalExpenses"
  by (simp add: decimalExpenses_def countsInTotal_def isNaN_def decimal_evals)

lemma decimal_rev_counted: "filter countsInTotal (rev decimalExpenses) = rev decimalExpenses"
  by (simp add: decimalExpenses_def countsInTotal_def isNaN_def decimal_evals)

lemma decimal_exact: "summedExactly decimalExpenses"
  unfolding summedExactly_def decimal_counted
  by (simp add: decimalExpenses_def decimal_evals)

lemma decimal_rev_exact: "summedExactly (rev decimalExpenses)"
  unfolding summedExactly_def decimal_rev_counted
  by (simp add: decimalExpenses_def decimal_evals)

lemma decimal_sum: "(\<Sum>e\<leftarrow>filter countsInTotal decimalExpenses. amountOf e) = 6803 / 4"
  unfolding decimal_counted
  by (simp add: decimalExpenses_def amountOf_def decimal_evals)

lemma whole_counted: "filter countsInTotal wholeExpenses = wholeExpenses"
  by (simp add: wholeExpenses_def countsInTotal_def isNaN_def decimal_evals)

lemma whole_all: "\<forall>e \<in> set wholeExpenses. countsInTotal e \<longrightarrow> wholeAmount e"
  by (simp add: wholeExpenses_def wholeAmount_def decimal_evals)

lemma whole_abs_sum: "(\<Sum>e\<leftarrow>filter countsInTotal wholeExpenses. \<bar>amountOf e\<bar>) = 1775"
  unfolding whole_counted
  by (simp add: wholeExpenses_def amountOf_def decimal_evals)

lemma whole_sum: "(\<Sum>e\<leftarrow>filter countsInTotal wholeExpenses. amountOf e) = 1775"
  unfolding whole_counted
  by (simp add: wholeExpenses_def amountOf_def decimal_evals)

lemma exampleExpenses_total: "totalExpenses (useTotals gross exampleExpenses loc) = Fin 1500"
  by (simp add: totalExpenses_useTotals exampleExpenses_def countsInTotal_def isNaN_def
      example_evals)

lemma exampleState_total: "totalExpenses (totalsOf exampleState) = Fin 1500"
  by (simp add: totalsOf_def exampleState_def initialState_def exampleExpenses_total)

lemma exampleState_valid: "isFormValid (totalsOf exampleState)"
  by (simp add: totalsOf_def isFormValid_useTotals exampleState_def initialState_def
      isNaN_def example_evals)

lemma unparseableState_valid: "isFormValid (totalsOf unparseableState)"
  by (simp add: totalsOf_def isFormValid_useTotals unparseableState_def exampleState_def
      initialState_def isNaN_def example_evals)

lemma example_taxOk: "snd (taxStage taxOk s) = Inr exampleTaxResult"
  by (simp add: taxStage_def getEstimatedNetIncome_def taxOk_def exampleTaxResult_def)

lemma example_taxFails:
  "snd (taxStage taxFails s) = Inl (Error ''Failed to generate tax estimation from AI.'')"
  by (simp add: taxStage_def getEstimatedNetIncome_def taxFails_def)

lemma example_analysisFails:
  "snd (analysisStage analysisFails s r) =
     Inl (Error ''Failed to generate budget analysis from AI.'')"
  by (simp add: analysisStage_def getBudgetAnalysis_def analysisFails_def)

lemma example_analysisOk: "snd (analysisStage analysisOk s r) = Inr ''Looks good.''"
  by (simp add: analysisStage_def getBudgetAnalysis_def analysisOk_def)

lemma afterSuccess_eq:
  "afterSuccess =
     exampleState\<lparr>netIncome := Some (Fin 4000), estimatedTax := Some (Fin 1000),
       taxDisclaimer := ''Estimate only.'', analysis := ''Looks good.'',
       showResults := True\<rparr>"
  using exampleState_valid
  by (simp add: afterSuccess_def handleCalculate_def Let_def case_prod_beta example_taxOk
      example_analysisOk exampleTaxResult_def apply_events_def)
    (simp add: exampleState_def initialState_def)

lemma afterSuccess_valid: "isFormValid (totalsOf afterSuccess)"
  using exampleState_valid by (simp add: afterSuccess_eq totalsOf_def)

lemma invalidAfterSuccess_invalid: "\<not> isFormValid (totalsOf invalidAfterSuccess)"
  by (simp add: invalidAfterSuccess_def afterSuccess_eq totalsOf_def isFormValid_useTotals
      parseFloat_def trimStart_def isNaN_def)

lemma run_with_edit:
  "handleCalculate taxOk analysisOk editDuringTax [] exampleState =
     (exampleState\<lparr>expenses :=
          [\<lparr>id_exp = 1, name = ''Rent'', amount = ''1700''\<rparr>,
           \<lparr>id_exp = 2, name = [], amount = ''200''\<rparr>],
        netIncome := Some (Fin 4000), estimatedTax := Some (Fin 1000),
        taxDisclaimer := ''Estimate only.'', analysis := ''Looks good.'',
        showResults := True\<rparr>,
      [TaxRequest
         \<lparr>askIncome = Fin 5000, askLocation = ''Austin'', askFilingStatus = ''Single''\<rparr>,
       AnalysisRequest
         \<lparr>promptLocation = ''Austin'', promptGrossIncome = Fin 5000,
          promptNetIncome = Fin 4000, promptExpenseList = [(''Rent'', Fin 1500)],
          promptTotalExpenses = Fin 1500, promptRemainingBalance = Fin 2500\<rparr>])"
  using exampleState_valid
  by (simp add: handleCalculate_def Let_def taxStage_def analysisStage_def
      getEstimatedNetIncome_def getBudgetAnalysis_def taxOk_def analysisOk_def
      exampleState_total)
    (simp add: exampleState_def initialState_def exampleExpenses_def editDuringTax_def
      apply_events_def handleExpenseChange_def jssub_def example_evals)

section \<open>The calculation\<close>

text \<open>
  C1, as the claim states it, fails. On the example the rent is raised from 1500 to 1700
  while the tax call is pending. When the analysis is requested the ledger holds 1700,
  and 4000 - 1700 = 2300, but the request carries the total 1500 and the remaining
  balance 2500 of the render in which the calculation was started.
\<close>

theorem remainingBalance_is_stale_counterexample:
  "expenses (fst (handleCalculate taxOk analysisOk editDuringTax [] exampleState)) =
     [\<lparr>id_exp = 1, name = ''Rent'', amount = ''1700''\<rparr>,
      \<lparr>id_exp = 2, name = [], amount = ''200''\<rparr>]
   \<and> jssub (Fin 4000)
        (totalExpenses (totalsOf
          (fst (handleCalculate taxOk analysisOk editDuringTax [] exampleState)))) = Fin 2300
   \<and> last (snd (handleCalculate taxOk analysisOk editDuringTax [] exampleState)) =
        AnalysisRequest
          \<lparr>promptLocation = ''Austin'', promptGrossIncome = Fin 5000,
           promptNetIncome = Fin 4000, promptExpenseList = [(''Rent'', Fin 1500)],
           promptTotalExpenses = Fin 1500, promptRemainingBalance = Fin 2500\<rparr>"
  unfolding run_with_edit
  by (simp add: totalsOf_def totalExpenses_useTotals countsInTotal_def isNaN_def jssub_def
      example_evals)

text \<open>
  C1, amended: in a calculation that reaches the analysis, the remaining balance sent
  is the net income of the tax estimate minus the total of the expenses of the render
  in which the calculation was started, whatever edits are made while the tax call is
  pending.
\<close>

theorem remainingBalance_from_render:
  assumes "isFormValid (totalsOf s)"
    and "snd (taxStage taxAi s) = Inr taxRes"
  shows "snd (handleCalculate taxAi analysisAi evs1 evs2 s) =
           [TaxRequest (fst (taxStage taxAi s)),
            AnalysisRequest (fst (analysisStage analysisAi s taxRes))]
       \<and> promptRemainingBalance (fst (analysisStage analysisAi s taxRes)) =
           jssub (resNetIncome taxRes)
             (totalExpenses (useTotals (grossIncome s) (expenses s) (location s)))"
  using assms
  by (simp add: handleCalculate_def Let_def case_prod_beta analysisStage_def
      getBudgetAnalysis_def totalsOf_def split: sum.splits)

theorem remainingBalance_from_render_witness:
  "isFormValid (totalsOf exampleState)
   \<and> snd (taxStage taxOk exampleState) = Inr exampleTaxResult
   \<and> snd (handleCalculate taxOk analysisOk editDuringTax [] exampleState) =
       [TaxRequest (fst (taxStage taxOk exampleState)),
        AnalysisRequest (fst (analysisStage analysisOk exampleState exampleTaxResult))]
   \<and> promptRemainingBalance (fst (analysisStage analysisOk exampleState exampleTaxResult)) =
       Fin 2500"
proof -
  have "totalExpenses (useTotals (grossIncome exampleState) (expenses exampleState)
          (location exampleState)) = Fin 1500"
    using exampleState_total by (simp add: totalsOf_def)
  then show ?thesis
    using remainingBalance_from_render [OF exampleState_valid example_taxOk,
        where analysisAi = analysisOk and ?evs1.0 = editDuringTax and ?evs2.0 = "[]"]
      exampleState_valid example_taxOk [of exampleState]
    by (simp add: exampleTaxResult_def jssub_def example_evals)
qed

text \<open>
  C2, as the claim states it, fails. After a successful calculation the income field is
  emptied; the next calculation fails validation, sets the error message and leaves
  \<open>showResults\<close> true.
\<close>

theorem validation_failure_keeps_showResults_counterexample:
  "error (fst (handleCalculate taxOk analysisOk [] [] invalidAfterSuccess))
     = Some validationMessage
   \<and> showResults (fst (handleCalculate taxOk analysisOk [] [] invalidAfterSuccess))"
  using invalidAfterSuccess_invalid
  by (simp add: handleCalculate_def) (simp add: invalidAfterSuccess_def afterSuccess_eq)

text \<open>
  C2, amended: a calculation that fails validation sets the validation message, changes
  nothing else (so \<open>showResults\<close> keeps its value) and sends no request; a calculation
  that fails at the tax stage or at the analysis stage ends with the failure message
  set and \<open>showResults\<close> false.
\<close>

theorem failed_calculation_state:
  "(\<not> isFormValid (totalsOf s) \<longrightarrow>
      handleCalculate taxAi analysisAi evs1 evs2 s =
        (s\<lparr>error := Some validationMessage\<rparr>, []))
   \<and> (isFormValid (totalsOf s) \<longrightarrow> snd (taxStage taxAi s) = Inl err \<longrightarrow>
        error (fst (handleCalculate taxAi analysisAi evs1 evs2 s)) = Some failureMessage
        \<and> \<not> showResults (fst (handleCalculate taxAi analysisAi evs1 evs2 s)))
   \<and> (isFormValid (totalsOf s) \<longrightarrow> snd (taxStage taxAi s) = Inr taxRes \<longrightarrow>
        snd (analysisStage analysisAi s taxRes) = Inl err \<longrightarrow>
        error (fst (handleCalculate taxAi analysisAi evs1 evs2 s)) = Some failureMessage
        \<and> \<not> showResults (fst (handleCalculate taxAi analysisAi evs1 evs2 s)))"
  by (simp add: handleCalculate_def Let_def case_prod_beta)

theorem failed_calculation_state_witness:
  "(\<not> isFormValid (totalsOf invalidAfterSuccess)
      \<and> handleCalculate taxOk analysisOk [] [] invalidAfterSuccess =
          (invalidAfterSuccess\<lparr>error := Some validationMessage\<rparr>, []))
   \<and> (isFormValid (totalsOf exampleState)
      \<and> snd (taxStage taxFails exampleState) =
          Inl (Error ''Failed to generate tax estimation from AI.'')
      \<and> error (fst (handleCalculate taxFails analysisOk [] [] exampleState)) =
          Some failureMessage
      \<and> \<not> showResults (fst (handleCalculate taxFails analysisOk [] [] exampleState)))
   \<and> (snd (taxStage taxOk exampleState) = Inr exampleTaxResult
      \<and> snd (analysisStage analysisFails exampleState exampleTaxResult) =
          Inl (Error ''Failed to generate budget analysis from AI.'')
      \<and> error (fst (handleCalculate taxOk analysisFails [] [] exampleState)) =
          Some failureMessage
      \<and> \<not> showResults (fst (handleCalculate taxOk analysisFails [] [] exampleState)))"
  using failed_calculation_state [where s = invalidAfterSuccess and taxAi = taxOk
      and analysisAi = analysisOk and ?evs1.0 = "[]" and ?evs2.0 = "[]"]
    failed_calculation_state [where s = exampleState and taxAi = taxFails
      and analysisAi = analysisOk and ?evs1.0 = "[]" and ?evs2.0 = "[]"
      and err = "Error ''Failed to generate tax estimation from AI.''"]
    failed_calculation_state [where s = exampleState and taxAi = taxOk
      and analysisAi = analysisFails and ?evs1.0 = "[]" and ?evs2.0 = "[]"
      and taxRes = exampleTaxResult
      and err = "Error ''Failed to generate budget analysis from AI.''"]
    invalidAfterSuccess_invalid exampleState_valid example_taxOk example_taxFails
    example_analysisFails
  by simp

text \<open>
  C3, as the claim states it, fails. On the example the tax stage succeeds and the
  analysis stage fails: the final state still holds the net income 4000 and the tax
  1000 of the estimate, with \<open>showResults\<close> false.
\<close>

theorem tax_estimate_not_discarded_counterexample:
  "netIncome (fst (handleCalculate taxOk analysisFails [] [] exampleState)) = Some (Fin 4000)
   \<and> estimatedTax (fst (handleCalculate taxOk analysisFails [] [] exampleState))
       = Some (Fin 1000)
   \<and> \<not> showResults (fst (handleCalculate taxOk analysisFails [] [] exampleState))"
  using exampleState_valid
  by (simp add: handleCalculate_def Let_def case_prod_beta example_taxOk
      example_analysisFails exampleTaxResult_def apply_events_def)

text \<open>
  C3, amended: when the tax stage succeeds and the analysis stage then fails, the final
  state keeps the net income and the total tax of the estimate and has \<open>showResults\<close>
  false: the estimate is hidden, not discarded.
\<close>

theorem analysis_failure_keeps_estimate:
  assumes "isFormValid (totalsOf s)"
    and "snd (taxStage taxAi s) = Inr taxRes"
    and "snd (analysisStage analysisAi s taxRes) = Inl err"
  shows "netIncome (fst (handleCalculate taxAi analysisAi evs1 evs2 s))
           = Some (resNetIncome taxRes)
       \<and> estimatedTax (fst (handleCalculate taxAi analysisAi evs1 evs2 s))
           = Some (resTotalTax taxRes)
       \<and> \<not> showResults (fst (handleCalculate taxAi analysisAi evs1 evs2 s))"
  using assms
  by (simp add: handleCalculate_def Let_def case_prod_beta apply_events_results)

theorem analysis_failure_keeps_estimate_witness:
  "isFormValid (totalsOf exampleState)
   \<and> snd (taxStage taxOk exampleState) = Inr exampleTaxResult
   \<and> snd (analysisStage analysisFails exampleState exampleTaxResult) =
       Inl (Error ''Failed to generate budget analysis from AI.'')
   \<and> netIncome (fst (handleCalculate taxOk analysisFails editDuringTax [] exampleState))
       = Some (Fin 4000)
   \<and> estimatedTax (fst (handleCalculate taxOk analysisFails editDuringTax [] exampleState))
       = Some (Fin 1000)
   \<and> \<not> showResults (fst (handleCalculate taxOk analysisFails editDuringTax [] exampleState))"
  using analysis_failure_keeps_estimate [OF exampleState_valid example_taxOk
      example_analysisFails, where ?evs1.0 = editDuringTax and ?evs2.0 = "[]"]
    exampleState_valid example_taxOk [of exampleState]
    example_analysisFails [of exampleState exampleTaxResult]
  by (simp add: exampleTaxResult_def)

text \<open>
  C5: in a calculation that reaches the analysis, the expense list of the request is
  the expenses of the render filtered by non-empty trimmed name and non-empty trimmed
  amount only. An entry with such a name and amount whose amount does not parse as a
  number has its line in the request, and the total is what it is without the entry.
\<close>

theorem unparseable_expense_in_request:
  assumes "isFormValid (totalsOf s)"
    and "snd (taxStage taxAi s) = Inr taxRes"
    and "e \<in> set (expenses s)"
    and "trim (name e) \<noteq> []" and "trim (amount e) \<noteq> []"
    and "isNaN (parseFloat (amount e))"
  shows "AnalysisRequest (fst (analysisStage analysisAi s taxRes))
           \<in> set (snd (handleCalculate taxAi analysisAi evs1 evs2 s))
       \<and> promptExpenseList (fst (analysisStage analysisAi s taxRes)) =
           map (\<lambda>x. (name x, parseFloat (amount x)))
             (filter (\<lambda>x. trim (name x) \<noteq> [] \<and> trim (amount x) \<noteq> []) (expenses s))
       \<and> (name e, NaN) \<in> set (promptExpenseList (fst (analysisStage analysisAi s taxRes)))
       \<and> totalExpenses (totalsOf s) =
           totalExpenses
             (useTotals (grossIncome s) (filter (\<lambda>x. x \<noteq> e) (expenses s)) (location s))"
proof -
  have req: "AnalysisRequest (fst (analysisStage analysisAi s taxRes))
           \<in> set (snd (handleCalculate taxAi analysisAi evs1 evs2 s))"
    using assms(1,2)
    by (simp add: handleCalculate_def Let_def case_prod_beta split: sum.splits)
  have lst: "promptExpenseList (fst (analysisStage analysisAi s taxRes)) =
           map (\<lambda>x. (name x, parseFloat (amount x)))
             (filter (\<lambda>x. trim (name x) \<noteq> [] \<and> trim (amount x) \<noteq> []) (expenses s))"
    by (simp add: analysisStage_def getBudgetAnalysis_def Let_def)
  have "(name e, parseFloat (amount e))
          \<in> set (promptExpenseList (fst (analysisStage analysisAi s taxRes)))"
    unfolding lst using assms(3,4,5) by (simp add: image_iff) blast
  then have mem: "(name e, NaN)
          \<in> set (promptExpenseList (fst (analysisStage analysisAi s taxRes)))"
    using assms(6) by (simp add: isNaN_def)
  have "\<not> countsInTotal e"
    using assms(6) by (simp add: countsInTotal_def)
  then have "filter countsInTotal (filter (\<lambda>x. x \<noteq> e) (expenses s))
               = filter countsInTotal (expenses s)"
    by (auto intro: filter_cong)
  then have tot: "totalExpenses (totalsOf s) =
           totalExpenses
             (useTotals (grossIncome s) (filter (\<lambda>x. x \<noteq> e) (expenses s)) (location s))"
    by (simp add: totalsOf_def totalExpenses_useTotals)
  from req lst mem tot show ?thesis by simp
qed

theorem unparseable_expense_in_request_witness:
  "isFormValid (totalsOf unparseableState)
   \<and> snd (taxStage taxOk unparseableState) = Inr exampleTaxResult
   \<and> \<lparr>id_exp = 2, name = ''Misc'', amount = ''abc''\<rparr> \<in> set (expenses unparseableState)
   \<and> trim ''Misc'' \<noteq> [] \<and> trim ''abc'' \<noteq> [] \<and> isNaN (parseFloat ''abc'')
   \<and> AnalysisRequest (fst (analysisStage analysisOk unparseableState exampleTaxResult))
       \<in> set (snd (handleCalculate taxOk analysisOk [] [] unparseableState))
   \<and> promptExpenseList (fst (analysisStage analysisOk unparseableState exampleTaxResult)) =
       [(''Rent'', Fin 1500), (''Misc'', NaN)]
   \<and> totalExpenses (totalsOf unparseableState) =
       totalExpenses (useTotals ''5000''
         [\<lparr>id_exp = 1, name = ''Rent'', amount = ''1500''\<rparr>] ''Austin'')"
proof -
  have e: "\<lparr>id_exp = 2, name = ''Misc'', amount = ''abc''\<rparr> \<in> set (expenses unparseableState)"
    by (simp add: unparseableState_def unparseableExpenses_def)
  have n: "trim (name \<lparr>id_exp = 2, name = ''Misc'', amount = ''abc''\<rparr>) \<noteq> []"
    and a: "trim (amount \<lparr>id_exp = 2, name = ''Misc'', amount = ''abc''\<rparr>) \<noteq> []"
    and p: "isNaN (parseFloat (amount \<lparr>id_exp = 2, name = ''Misc'', amount = ''abc''\<rparr>))"
    by (simp_all add: isNaN_def example_evals)
  have flds: "grossIncome unparseableState = ''5000''"
    "location unparseableState = ''Austin''"
    "expenses unparseableState = unparseableExpenses"
    by (simp_all add: unparseableState_def exampleState_def initialState_def)
  show ?thesis
    using unparseable_expense_in_request [OF unparseableState_valid example_taxOk e n a p,
        where analysisAi = analysisOk and ?evs1.0 = "[]" and ?evs2.0 = "[]"]
      unparseableState_valid example_taxOk [of unparseableState] e
    by (simp add: flds unparseableExpenses_def isNaN_def example_evals)
qed

text \<open>
  C10: a calculation on a valid form whose tax stage fails ends with the net income,
  the total tax and the analysis text cleared and with the disclaimer it started with.
\<close>

theorem tax_failure_keeps_disclaimer:
  assumes "isFormValid (totalsOf s)"
    and "snd (taxStage taxAi s) = Inl err"
  shows "taxDisclaimer (fst (handleCalculate taxAi analysisAi evs1 evs2 s)) = taxDisclaimer s
       \<and> netIncome (fst (handleCalculate taxAi analysisAi evs1 evs2 s)) = None
       \<and> estimatedTax (fst (handleCalculate taxAi analysisAi evs1 evs2 s)) = None
       \<and> analysis (fst (handleCalculate taxAi analysisAi evs1 evs2 s)) = []"
  using assms
  by (simp add: handleCalculate_def Let_def case_prod_beta apply_events_results)

theorem tax_failure_keeps_disclaimer_witness:
  "isFormValid (totalsOf afterSuccess)
   \<and> snd (taxStage taxFails afterSuccess) =
       Inl (Error ''Failed to generate tax estimation from AI.'')
   \<and> taxDisclaimer (fst (handleCalculate taxFails analysisOk [] [] afterSuccess))
       = ''Estimate only.''
   \<and> netIncome (fst (handleCalculate taxFails analysisOk [] [] afterSuccess)) = None
   \<and> estimatedTax (fst (handleCalculate taxFails analysisOk [] [] afterSuccess)) = None
   \<and> analysis (fst (handleCalculate taxFails analysisOk [] [] afterSuccess)) = []"
proof -
  have "taxDisclaimer afterSuccess = ''Estimate only.''"
    by (simp add: afterSuccess_eq)
  then show ?thesis
    using tax_failure_keeps_disclaimer [OF afterSuccess_valid example_taxFails,
        where analysisAi = analysisOk and ?evs1.0 = "[]" and ?evs2.0 = "[]"]
      afterSuccess_valid example_taxFails [of afterSuccess]
    by simp
qed

section \<open>The estimation client\<close>

text \<open>
  C8, as the claim states it, fails. When the remote call returns the empty narrative,
  \<open>getBudgetAnalysis\<close> returns the empty string; it does not fail.
\<close>

theorem empty_narrative_returned_counterexample:
  "snd (getBudgetAnalysis analysisEmpty (Fin 5000) (Fin 4000) ''Austin'' [] (Fin 0)
     (Fin 4000)) = Inr []"
  by (simp add: getBudgetAnalysis_def analysisEmpty_def)

text \<open>
  C8, amended: \<open>getBudgetAnalysis\<close> fails exactly when the remote call fails; when the
  remote call returns a narrative, \<open>getBudgetAnalysis\<close> returns it as it is, empty or
  not.
\<close>

theorem getBudgetAnalysis_outcome:
  "snd (getBudgetAnalysis ai gross net loc exps totalExp remaining) =
     (case ai (fst (getBudgetAnalysis ai gross net loc exps totalExp remaining)) of
        AnalysisThrows \<Rightarrow> Inl (Error ''Failed to generate budget analysis from AI.'')
      | AnalysisText text \<Rightarrow> Inr text)"
  by (simp add: getBudgetAnalysis_def Let_def)

section \<open>The expense ledger\<close>

text \<open>
  C9: two entries added at the same timestamp carry the same id, and removing that id
  removes both of them, together with every other entry that carries it. The entry of
  the initial state and one added in the same millisecond are removed together, which
  leaves the ledger empty.
\<close>

theorem same_timestamp_entries_removed_together:
  "handleAddExpense t (handleAddExpense t xs) =
     xs @ [\<lparr>id_exp = t, name = [], amount = []\<rparr>, \<lparr>id_exp = t, name = [], amount = []\<rparr>]
   \<and> handleRemoveExpense t (handleAddExpense t (handleAddExpense t xs))
       = handleRemoveExpense t xs
   \<and> t \<notin> id_exp ` set (handleRemoveExpense t (handleAddExpense t (handleAddExpense t xs)))
   \<and> expenses (apply_event (RemoveExpense t) (apply_event (AddExpense t) (initialState t)))
       = []"
  by (auto simp add: handleAddExpense_def handleRemoveExpense_def initialState_def)

section \<open>The total and the validity of the form\<close>

text \<open>
  C4, as the claim states it, fails. An amount that parses to an infinite value is not
  skipped: for the single entry Rent with the amount \<open>Infinity\<close> the total is infinite,
  where the sum over the entries with a finite amount is 0.
\<close>

theorem infinite_amount_counted_counterexample:
  "totalExpenses (useTotals ''5000'' infiniteExpenses ''Austin'') = PosInf
   \<and> spec_computeTotal infiniteExpenses = Fin 0"
  by (simp add: totalExpenses_useTotals spec_computeTotal_def infiniteExpenses_def
      countsInTotal_def isNaN_def example_evals)

text \<open>
  C4, amended: the total is 0 for the empty collection; going through the collection in
  order, an entry whose trimmed name is non-empty, whose trimmed amount is non-empty and
  whose amount does not parse to NaN adds its parsed amount (an infinite one included)
  to the total, and any other entry leaves the total as it is, wherever it stands; for
  the expenses Rent 1500 and an unnamed 200 the total is 1500.
\<close>

theorem totalExpenses_characterisation:
  "totalExpenses (useTotals gross [] loc) = Fin 0
   \<and> totalExpenses (useTotals gross (exps @ [e]) loc) =
       (if trim (name e) \<noteq> [] \<and> trim (amount e) \<noteq> [] \<and> parseFloat (amount e) \<noteq> NaN
        then jsadd (totalExpenses (useTotals gross exps loc)) (parseFloat (amount e))
        else totalExpenses (useTotals gross exps loc))
   \<and> (\<not> (trim (name e) \<noteq> [] \<and> trim (amount e) \<noteq> [] \<and> parseFloat (amount e) \<noteq> NaN) \<longrightarrow>
        totalExpenses (useTotals gross (xs @ e # ys) loc) =
          totalExpenses (useTotals gross (xs @ ys) loc))
   \<and> totalExpenses (useTotals ''5000'' exampleExpenses ''Austin'') = Fin 1500"
  using total_skip [of e gross xs ys loc]
  by (simp add: exampleExpenses_total)
    (simp add: totalExpenses_useTotals countsInTotal_def isNaN_def)

theorem totalExpenses_characterisation_witness:
  "\<not> (trim [] \<noteq> [] \<and> trim ''200'' \<noteq> [] \<and> parseFloat ''200'' \<noteq> NaN)
   \<and> totalExpenses (useTotals ''5000''
        [\<lparr>id_exp = 1, name = ''Rent'', amount = ''1500''\<rparr>,
         \<lparr>id_exp = 2, name = [], amount = ''200''\<rparr>] ''Austin'') =
      totalExpenses (useTotals ''5000''
        [\<lparr>id_exp = 1, name = ''Rent'', amount = ''1500''\<rparr>] ''Austin'')
   \<and> totalExpenses (useTotals ''5000'' [] ''Austin'') = Fin 0"
  using totalExpenses_characterisation [where gross = "''5000''" and loc = "''Austin''"
      and e = "\<lparr>id_exp = 2, name = [], amount = ''200''\<rparr>"
      and xs = "[\<lparr>id_exp = 1, name = ''Rent'', amount = ''1500''\<rparr>]" and ys = "[]"
      and exps = "[]"]
  by (simp add: example_evals)

text \<open>
  C6, as the claim states it, fails. The income \<open>Infinity\<close> does not parse to a finite
  number, and the form is valid with it.
\<close>

theorem infinite_income_valid_counterexample:
  "isFormValid (useTotals ''Infinity'' [] ''Austin'')
   \<and> \<not> spec_isValid ''Infinity'' ''Austin''"
  by (simp add: isFormValid_useTotals spec_isValid_def isNaN_def example_evals)

text \<open>
  C6, amended: the form is valid if and only if the income parses to a number greater
  than 0, finite or positive infinity, and the trimmed location is non-empty; the
  expenses have no part in it.
\<close>

theorem isFormValid_characterisation:
  "isFormValid (useTotals gross exps loc) =
     (spec_isValid gross loc \<or> (parseFloat gross = PosInf \<and> trim loc \<noteq> []))
   \<and> isFormValid (useTotals gross exps loc) = isFormValid (useTotals gross exps' loc)"
  by (cases "parseFloat gross") (auto simp add: isFormValid_useTotals spec_isValid_def isNaN_def)

text \<open>
  C7, as the claim states it, fails: the total is a floating-point sum taken in the
  order of the collection. The amounts 0.1, 0.2, 0.3 give 0.6000000000000001 in this
  order and 0.6 in the reverse order.
\<close>

theorem total_depends_on_order_counterexample:
  "mset (rev centsAscending) = mset centsAscending
   \<and> totalExpenses (useTotals ''5000'' centsAscending ''Austin'')
       = Fin (1351079888211149 / 2251799813685248)
   \<and> totalExpenses (useTotals ''5000'' (rev centsAscending) ''Austin'')
       = Fin (5404319552844595 / 9007199254740992)"
  by (simp add: totalExpenses_useTotals centsAscending_def countsInTotal_def isNaN_def
      trims parse_tenth parse_fifth parse_three_tenths sum_ascending sum_descending
      del: jsadd.simps)

text \<open>
  C7, amended: the total is the floating-point sum of the amounts that count, added
  from left to right in the order of the collection. A permutation of the collection
  has the same total whenever in both orders every amount that counts is finite and no
  addition of the sum is rounded; the total then is the exact sum of these amounts.
  This is so in particular when every amount that counts parses to a whole number and
  the absolute values of these amounts sum to less than \<open>2^53\<close>.
\<close>

theorem total_order_independent_when_exact:
  "totalExpenses (useTotals gross xs loc) =
     foldl (\<lambda>sum e. jsadd sum (parseFloat (amount e))) (Fin 0)
       (filter (\<lambda>e. trim (name e) \<noteq> [] \<and> trim (amount e) \<noteq> []
                  \<and> parseFloat (amount e) \<noteq> NaN) xs)
   \<and> (mset ys = mset xs \<longrightarrow> summedExactly xs \<longrightarrow> summedExactly ys \<longrightarrow>
        totalExpenses (useTotals gross ys loc) = totalExpenses (useTotals gross xs loc)
        \<and> totalExpenses (useTotals gross xs loc)
            = Fin (\<Sum>e\<leftarrow>filter countsInTotal xs. amountOf e))
   \<and> (mset ys = mset xs \<longrightarrow> (\<forall>e \<in> set xs. countsInTotal e \<longrightarrow> wholeAmount e) \<longrightarrow>
        (\<Sum>e\<leftarrow>filter countsInTotal xs. \<bar>amountOf e\<bar>) < 2 ^ 53 \<longrightarrow>
        summedExactly xs \<and> summedExactly ys
        \<and> totalExpenses (useTotals gross ys loc) = totalExpenses (useTotals gross xs loc)
        \<and> totalExpenses (useTotals gross xs loc)
            = Fin (\<Sum>e\<leftarrow>filter countsInTotal xs. amountOf e))"
proof (intro conjI impI)
  have "countsInTotal = (\<lambda>e. trim (name e) \<noteq> [] \<and> trim (amount e) \<noteq> []
          \<and> parseFloat (amount e) \<noteq> NaN)"
    by (rule ext) (simp add: countsInTotal_def isNaN_def)
  then show "totalExpenses (useTotals gross xs loc) =
     foldl (\<lambda>sum e. jsadd sum (parseFloat (amount e))) (Fin 0)
       (filter (\<lambda>e. trim (name e) \<noteq> [] \<and> trim (amount e) \<noteq> []
                  \<and> parseFloat (amount e) \<noteq> NaN) xs)"
    by (simp add: totalExpenses_useTotals)
next
  assume "mset ys = mset xs" "summedExactly xs" "summedExactly ys"
  then show "totalExpenses (useTotals gross ys loc) = totalExpenses (useTotals gross xs loc)"
    by (rule total_exact_perm)
next
  assume "summedExactly xs"
  then show "totalExpenses (useTotals gross xs loc)
               = Fin (\<Sum>e\<leftarrow>filter countsInTotal xs. amountOf e)"
    by (rule total_exact)
next
  assume p: "mset ys = mset xs"
    and w: "\<forall>e \<in> set xs. countsInTotal e \<longrightarrow> wholeAmount e"
    and b: "(\<Sum>e\<leftarrow>filter countsInTotal xs. \<bar>amountOf e\<bar>) < 2 ^ 53"
  show ex: "summedExactly xs"
    using w b by (rule summedExactly_whole)
  have "mset (filter countsInTotal ys) = mset (filter countsInTotal xs)"
    using p by simp
  then have "(\<Sum>e\<leftarrow>filter countsInTotal ys. \<bar>amountOf e\<bar>)
               = (\<Sum>e\<leftarrow>filter countsInTotal xs. \<bar>amountOf e\<bar>)"
    by (rule sum_list_mset_cong)
  then have by': "(\<Sum>e\<leftarrow>filter countsInTotal ys. \<bar>amountOf e\<bar>) < 2 ^ 53"
    using b by simp
  have "set ys = set xs" using p by (rule mset_eq_setD)
  then have "\<forall>e \<in> set ys. countsInTotal e \<longrightarrow> wholeAmount e"
    using w by simp
  then show ey: "summedExactly ys"
    using by' by (rule summedExactly_whole)
  show "totalExpenses (useTotals gross ys loc) = totalExpenses (useTotals gross xs loc)"
    using p ex ey by (rule total_exact_perm)
  show "totalExpenses (useTotals gross xs loc)
          = Fin (\<Sum>e\<leftarrow>filter countsInTotal xs. amountOf e)"
    using ex by (rule total_exact)
qed

theorem total_order_independent_when_exact_witness:
  "mset (rev decimalExpenses) = mset decimalExpenses
   \<and> rev decimalExpenses \<noteq> decimalExpenses
   \<and> length (filter countsInTotal decimalExpenses) = 3
   \<and> summedExactly decimalExpenses \<and> summedExactly (rev decimalExpenses)
   \<and> totalExpenses (useTotals ''5000'' (rev decimalExpenses) ''Austin'')
       = totalExpenses (useTotals ''5000'' decimalExpenses ''Austin'')
   \<and> totalExpenses (useTotals ''5000'' decimalExpenses ''Austin'') = Fin (6803 / 4)
   \<and> mset (rev wholeExpenses) = mset wholeExpenses
   \<and> rev wholeExpenses \<noteq> wholeExpenses
   \<and> length (filter countsInTotal wholeExpenses) = 3
   \<and> list_all wholeAmount wholeExpenses
   \<and> (\<Sum>e\<leftarrow>filter countsInTotal wholeExpenses. \<bar>amountOf e\<bar>) < 2 ^ 53
   \<and> totalExpenses (useTotals ''5000'' (rev wholeExpenses) ''Austin'')
       = totalExpenses (useTotals ''5000'' wholeExpenses ''Austin'')
   \<and> totalExpenses (useTotals ''5000'' wholeExpenses ''Austin'') = Fin 1775"
proof -
  have md: "mset (rev decimalExpenses) = mset decimalExpenses"
    and mw: "mset (rev wholeExpenses) = mset wholeExpenses"
    by simp_all
  have nd: "rev decimalExpenses \<noteq> decimalExpenses"
    and nw: "rev wholeExpenses \<noteq> wholeExpenses"
    by (simp_all add: decimalExpenses_def wholeExpenses_def)
  have ld: "length (filter countsInTotal decimalExpenses) = 3"
    unfolding decimal_counted by (simp add: decimalExpenses_def)
  have lw: "length (filter countsInTotal wholeExpenses) = 3"
    unfolding whole_counted by (simp add: wholeExpenses_def)
  have aw: "list_all wholeAmount wholeExpenses"
    by (simp add: wholeExpenses_def wholeAmount_def decimal_evals)
  have bw: "(\<Sum>e\<leftarrow>filter countsInTotal wholeExpenses. \<bar>amountOf e\<bar>) < 2 ^ 53"
    by (simp add: whole_abs_sum)
  have d: "totalExpenses (useTotals ''5000'' (rev decimalExpenses) ''Austin'')
             = totalExpenses (useTotals ''5000'' decimalExpenses ''Austin'')
           \<and> totalExpenses (useTotals ''5000'' decimalExpenses ''Austin'') = Fin (6803 / 4)"
    using total_order_independent_when_exact [where xs = decimalExpenses
        and ys = "rev decimalExpenses" and gross = "''5000''" and loc = "''Austin''",
        THEN conjunct2, THEN conjunct1]
      md decimal_exact decimal_rev_exact
    by (simp add: decimal_sum)
  have w: "totalExpenses (useTotals ''5000'' (rev wholeExpenses) ''Austin'')
             = totalExpenses (useTotals ''5000'' wholeExpenses ''Austin'')
           \<and> totalExpenses (useTotals ''5000'' wholeExpenses ''Austin'') = Fin 1775"
    using total_order_independent_when_exact [where xs = wholeExpenses
        and ys = "rev wholeExpenses" and gross = "''5000''" and loc = "''Austin''",
        THEN conjunct2, THEN conjunct2]
      mw whole_all bw
    by (simp add: whole_sum)
  from md nd ld decimal_exact decimal_rev_exact d mw nw lw aw bw w show ?thesis
    by simp
qed

end
